theory Spec2Isabelle
  imports Main
begin

section \<open>JavaScript values\<close>

text \<open>
  The service of \<^verbatim>\<open>src/index.js\<close> reads JSON request bodies and environment
  variables and builds plain objects from them. Values are JSON values plus
  \<^verbatim>\<open>undefined\<close>; an object is a finite map from property names to values, so
  a missing property and a property holding \<^verbatim>\<open>undefined\<close> are told apart.
  Numbers are the integers (a year, a count); a fractional number behaves like any
  non-zero integer in this program, which only tests values for truthiness and
  copies them.
\<close>

datatype js_value =
    JUndefined
  | JNull
  | JBool bool
  | JNum int
  | JString string
  | JArray "js_value list"
  | JObject "string \<rightharpoonup> js_value"

type_synonym js_object = "string \<rightharpoonup> js_value"

text \<open>ToBoolean: what \<^verbatim>\<open>!v\<close> and \<^verbatim>\<open>v || d\<close> test.\<close>

fun truthy :: "js_value \<Rightarrow> bool" where
  "truthy JUndefined = False"
| "truthy JNull = False"
| "truthy (JBool b) = b"
| "truthy (JNum n) = (n \<noteq> 0)"
| "truthy (JString s) = (s \<noteq> [])"
| "truthy (JArray xs) = True"
| "truthy (JObject m) = True"

text \<open>\<^verbatim>\<open>a || b\<close>: the left operand when it is truthy, else the right one.\<close>

definition js_or :: "js_value \<Rightarrow> js_value \<Rightarrow> js_value" where
  "js_or a b = (if truthy a then a else b)"

text \<open>\<^verbatim>\<open>!v\<close>: logical negation of a value.\<close>

definition js_not :: "js_value \<Rightarrow> bool" where
  "js_not v = (\<not> truthy v)"

text \<open>\<^verbatim>\<open>v === 'text'\<close>: strict equality with a string literal holds for that
  very string only, with no conversion.\<close>

fun strict_equals_string :: "js_value \<Rightarrow> string \<Rightarrow> bool" where
  "strict_equals_string (JString s) t = (s = t)"
| "strict_equals_string v t = False"

text \<open>
  Reading a property, as the destructuring \<^verbatim>\<open>const { to, ... } = req.body\<close> does:
  a missing property reads as \<^verbatim>\<open>undefined\<close>.
\<close>

definition get_prop :: "js_object \<Rightarrow> string \<Rightarrow> js_value" where
  "get_prop obj k = (case obj k of None \<Rightarrow> JUndefined | Some v \<Rightarrow> v)"

text \<open>The property name of an array index or string position: its decimal numeral.\<close>

definition digit_char :: "nat \<Rightarrow> char" where
  "digit_char d = ''0123456789'' ! d"

function index_key :: "nat \<Rightarrow> string" where
  "index_key n =
     (if n < 10 then [digit_char n]
      else index_key (n div 10) @ [digit_char (n mod 10)])"
  by pat_completeness auto
termination
  by (relation "measure id") auto

text \<open>
  The own enumerable properties that the spread \<^verbatim>\<open>{ ...v }\<close> copies: the
  properties of an object, the elements of an array and the characters of a string
  under their indices, and nothing for \<^verbatim>\<open>undefined\<close>, \<^verbatim>\<open>null\<close>, a boolean
  or a number.
\<close>

fun own_enumerable :: "js_value \<Rightarrow> js_object" where
  "own_enumerable (JObject m) = m"
| "own_enumerable (JArray xs) = map_of (zip (map index_key [0..<length xs]) xs)"
| "own_enumerable (JString s) =
     map_of (zip (map index_key [0..<length s]) (map (\<lambda>c. JString [c]) s))"
| "own_enumerable v = Map.empty"

section \<open>Environment, clock and transport\<close>

text \<open>
  \<^verbatim>\<open>process.env\<close> maps variable names to strings; an unset variable reads as
  \<^verbatim>\<open>undefined\<close>.
\<close>

type_synonym process_env = "string \<rightharpoonup> string"

definition env_get :: "process_env \<Rightarrow> string \<Rightarrow> js_value" where
  "env_get env k = (case env k of None \<Rightarrow> JUndefined | Some s \<Rightarrow> JString s)"

text \<open>
  \<^verbatim>\<open>new Date()\<close>: one reading of the wall clock, with the two methods the
  program calls on it.
\<close>

record date =
  getFullYear :: int
  toISOString :: string

text \<open>
  The options handed to \<^verbatim>\<open>nodemailer.createTransport\<close>. The
  \<^verbatim>\<open>port\<close> option, \<^verbatim>\<open>parseInt(process.env.EMAIL_PORT, 10) || 465\<close>, is a
  floating-point number that nothing below reads; it is left out of the record.
\<close>

record transport_options =
  host :: js_value
  secure :: bool
  auth_user :: js_value
  auth_pass :: js_value

definition transporter_options :: "process_env \<Rightarrow> transport_options" where
  "transporter_options env =
     \<lparr> host = js_or (env_get env ''EMAIL_HOST'') (JString ''smtp.googlemail.com''),
       secure = (strict_equals_string (env_get env ''EMAIL_SECURE'') ''true'' \<or> False),
       auth_user = env_get env ''EMAIL_USER'',
       auth_pass = env_get env ''EMAIL_PASSWORD'' \<rparr>"

text \<open>
  The message object handed to \<^verbatim>\<open>transporter.sendMail\<close>. The transport, with
  the Handlebars plugin registered on its compile step, resolves and renders the
  template and sends the message; it either resolves with an info object carrying
  a message identifier or rejects with an error carrying a message text.
\<close>

record mail_options =
  mo_from :: js_value
  mo_to :: js_value
  mo_replyTo :: js_value
  mo_subject :: js_value
  mo_template :: js_value
  mo_context :: js_object

record send_info =
  messageId :: string

datatype js_error = Error (message: string)

type_synonym transport = "mail_options \<Rightarrow> js_error + send_info"

section \<open>Responses and handlers\<close>

text \<open>
  \<^verbatim>\<open>res.status(n).json(obj)\<close> is the pair of the status and the object. A
  handler's outcome is its response together with the messages it handed to
  \<^verbatim>\<open>sendMail\<close>, in order.
\<close>

record http_response =
  status :: nat
  json :: js_object

record outcome =
  res :: http_response
  sendMail_calls :: "mail_options list"

definition health :: "date \<Rightarrow> http_response" where
  "health now =
     \<lparr> status = 200,
       json = [''status'' \<mapsto> JString ''OK'',
               ''message'' \<mapsto> JString ''Email service is running'',
               ''timestamp'' \<mapsto> JString (toISOString now)] \<rparr>"

text \<open>
  The two sending handlers take \<^verbatim>\<open>req.body\<close>, the object the JSON body parser
  left there (the empty object for a request without a JSON body), and read the
  named properties from it. Their bodies run inside \<^verbatim>\<open>try\<close>/\<^verbatim>\<open>catch\<close>:
  a rejection of \<^verbatim>\<open>await transporter.sendMail(mailOptions)\<close> is caught and
  answered with status 500 and the error's message. The object literal
  \<^verbatim>\<open>mailOptions\<close> of each handler is a definition of its own, over the
  handler's destructured constants.
\<close>

definition welcome_mailOptions ::
  "process_env \<Rightarrow> date \<Rightarrow> js_value \<Rightarrow> js_value \<Rightarrow> js_value \<Rightarrow> mail_options" where
  "welcome_mailOptions env now to username verificationLink =
     \<lparr> mo_from = env_get env ''EMAIL_FROM'',
       mo_to = to,
       mo_replyTo = env_get env ''EMAIL_REPLY_TO'',
       mo_subject = JString ''Welcome to Our Platform!'',
       mo_template = JString ''welcome'',
       mo_context = [''username'' \<mapsto> username,
                     ''verification_link'' \<mapsto> js_or verificationLink (JString ''#''),
                     ''company_name'' \<mapsto> env_get env ''COMPANY_NAME'',
                     ''current_year'' \<mapsto> JNum (getFullYear now)] \<rparr>"

definition send_welcome_email ::
  "process_env \<Rightarrow> date \<Rightarrow> transport \<Rightarrow> js_object \<Rightarrow> outcome" where
  \<open>send_welcome_email env now sendMail body =
     (let to = get_prop body ''to'';
          username = get_prop body ''username'';
          verificationLink = get_prop body ''verificationLink''
      in if js_not to \<or> js_not username then
           \<lparr> res = \<lparr> status = 400,
                     json = [''error'' \<mapsto> JString ''Missing required fields'',
                             ''message'' \<mapsto>
                               JString ''Both "to" and "username" are required fields''] \<rparr>,
             sendMail_calls = [] \<rparr>
         else
           (let mailOptions = welcome_mailOptions env now to username verificationLink
            in case sendMail mailOptions of
                 Inr info \<Rightarrow>
                   \<lparr> res = \<lparr> status = 200,
                             json = [''success'' \<mapsto> JBool True,
                                     ''message'' \<mapsto> JString ''Welcome email sent successfully'',
                                     ''messageId'' \<mapsto> JString (messageId info),
                                     ''recipient'' \<mapsto> to] \<rparr>,
                     sendMail_calls = [mailOptions] \<rparr>
               | Inl error \<Rightarrow>
                   \<lparr> res = \<lparr> status = 500,
                             json = [''error'' \<mapsto> JString ''Email sending failed'',
                                     ''message'' \<mapsto> JString (message error)] \<rparr>,
                     sendMail_calls = [mailOptions] \<rparr>))\<close>

definition custom_mailOptions ::
  "process_env \<Rightarrow> date \<Rightarrow> js_value \<Rightarrow> js_value \<Rightarrow> js_value \<Rightarrow> js_value \<Rightarrow> mail_options" where
  "custom_mailOptions env now to subject template context =
     \<lparr> mo_from = env_get env ''EMAIL_FROM'',
       mo_to = to,
       mo_replyTo = env_get env ''EMAIL_REPLY_TO'',
       mo_subject = subject,
       mo_template = template,
       mo_context = (own_enumerable context)
                      (''company_name'' \<mapsto> env_get env ''COMPANY_NAME'',
                       ''current_year'' \<mapsto> JNum (getFullYear now)) \<rparr>"

definition send_email ::
  "process_env \<Rightarrow> date \<Rightarrow> transport \<Rightarrow> js_object \<Rightarrow> outcome" where
  \<open>send_email env now sendMail body =
     (let to = get_prop body ''to'';
          subject = get_prop body ''subject'';
          template = get_prop body ''template'';
          context = get_prop body ''context''
      in if js_not to \<or> js_not subject \<or> js_not template then
           \<lparr> res = \<lparr> status = 400,
                     json = [''error'' \<mapsto> JString ''Missing required fields'',
                             ''message'' \<mapsto>
                               JString ''"to", "subject", and "template" are required fields''] \<rparr>,
             sendMail_calls = [] \<rparr>
         else
           (let mailOptions = custom_mailOptions env now to subject template context
            in case sendMail mailOptions of
                 Inr info \<Rightarrow>
                   \<lparr> res = \<lparr> status = 200,
                             json = [''success'' \<mapsto> JBool True,
                                     ''message'' \<mapsto> JString ''Email sent successfully'',
                                     ''messageId'' \<mapsto> JString (messageId info),
                                     ''recipient'' \<mapsto> to] \<rparr>,
                     sendMail_calls = [mailOptions] \<rparr>
               | Inl error \<Rightarrow>
                   \<lparr> res = \<lparr> status = 500,
                             json = [''error'' \<mapsto> JString ''Email sending failed'',
                                     ''message'' \<mapsto> JString (message error)] \<rparr>,
                     sendMail_calls = [mailOptions] \<rparr>))\<close>

definition error_middleware :: "js_error \<Rightarrow> http_response" where
  "error_middleware error =
     \<lparr> status = 500,
       json = [''error'' \<mapsto> JString ''Internal server error'',
               ''message'' \<mapsto> JString ''Something went wrong on our end''] \<rparr>"

section \<open>The application\<close>

text \<open>
  A request as the application sees it: the method, the requested URL, and what
  the JSON body parser registered first (\<^verbatim>\<open>app.use(express.json())\<close>) made of
  the body: either it hands an error to the error-handling middleware, or it
  leaves the parsed object in \<^verbatim>\<open>req.body\<close>.
\<close>

record request =
  http_method :: string
  originalUrl :: string
  parsed_body :: "js_error + js_object"

definition not_found :: "request \<Rightarrow> http_response" where
  "not_found req =
     \<lparr> status = 404,
       json = [''error'' \<mapsto> JString ''Route not found'',
               ''message'' \<mapsto>
                 JString (''The route '' @ originalUrl req @ '' does not exist'')] \<rparr>"

text \<open>
  The layers are tried in the order of their registration, as Express 4 does.
  \<^item> An error handed on by the body parser skips the routes and reaches the
    error-handling middleware, which is registered before the last layer.
  \<^item> The framework's test whether a route registered for a method and a path
    serves a request is a parameter of the model (\<open>matches\<close>).
  \<^item> The last layer, \<^verbatim>\<open>app.use('*', ...)\<close>, takes every path, and decodes the
    path as its parameter. Decoding can throw (a malformed percent-escape); the
    error it throws, if any, is a parameter of the model too (\<open>star_error\<close>). No
    error-handling middleware is registered after that layer, so such an error is
    answered by none of the program's handlers: it goes to the framework's own final
    handler, which is not part of this program.
\<close>

type_synonym route_match = "string \<Rightarrow> string \<Rightarrow> request \<Rightarrow> bool"

type_synonym layer_error = "request \<Rightarrow> js_error option"

datatype app_result =
    Responded outcome
  | Final_handler js_error

definition app ::
  "route_match \<Rightarrow> layer_error \<Rightarrow> process_env \<Rightarrow> date \<Rightarrow> transport \<Rightarrow> request
     \<Rightarrow> app_result" where
  "app matches star_error env now sendMail req =
     (case parsed_body req of
        Inl error \<Rightarrow> Responded \<lparr> res = error_middleware error, sendMail_calls = [] \<rparr>
      | Inr body \<Rightarrow>
          if matches ''GET'' ''/health'' req then
            Responded \<lparr> res = health now, sendMail_calls = [] \<rparr>
          else if matches ''POST'' ''/send-welcome-email'' req then
            Responded (send_welcome_email env now sendMail body)
          else if matches ''POST'' ''/send-email'' req then
            Responded (send_email env now sendMail body)
          else
            (case star_error req of
               Some error \<Rightarrow> Final_handler error
             | None \<Rightarrow> Responded \<lparr> res = not_found req, sendMail_calls = [] \<rparr>))"

subsection \<open>The framework's two tests, for the instances below\<close>

text \<open>
  Express 4 matches a route against the path of the URL (the part before the query
  string), ignoring the case of ASCII letters and one trailing slash, and lets a
  \<^verbatim>\<open>GET\<close> route serve \<^verbatim>\<open>HEAD\<close> requests.
\<close>

definition to_lower :: "char \<Rightarrow> char" where
  "to_lower c =
     (case map_of (zip ''ABCDEFGHIJKLMNOPQRSTUVWXYZ'' ''abcdefghijklmnopqrstuvwxyz'') c of
        None \<Rightarrow> c
      | Some d \<Rightarrow> d)"

definition pathname :: "string \<Rightarrow> string" where
  "pathname url = takeWhile (\<lambda>c. c \<noteq> CHR ''?'') url"

definition express_route :: route_match where
  "express_route m p req =
     (let name = map to_lower (http_method req);
          path = map to_lower (pathname (originalUrl req))
      in (if name = ''head'' then ''get'' else name) = map to_lower m
         \<and> (path = map to_lower p \<or> path = map to_lower p @ ''/''))"

text \<open>
  \<^verbatim>\<open>decodeURIComponent\<close> throws when a \<^verbatim>\<open>%\<close> is not followed by two
  hexadecimal digits, or when the escaped bytes above 127 are not the UTF-8
  encoding of code points. The text is first cut into plain characters and escaped
  bytes, then the escaped bytes are checked.
\<close>

definition is_hex :: "char \<Rightarrow> bool" where
  "is_hex c = (c \<in> set ''0123456789abcdefABCDEF'')"

definition hex_value :: "char \<Rightarrow> nat" where
  "hex_value c =
     (case map_of (zip ''0123456789abcdefABCDEF''
             [0, 1, 2, 3, 4, 5, 6, 7, 8, 9, 10, 11, 12, 13, 14, 15, 10, 11, 12, 13, 14, 15]) c of
        None \<Rightarrow> 0
      | Some n \<Rightarrow> n)"

datatype uri_item = Plain char | Escaped nat | Malformed

fun uri_items :: "string \<Rightarrow> uri_item list" where
  "uri_items (c # a # b # rest) =
     (if c = CHR ''%'' then
        (if is_hex a \<and> is_hex b
         then Escaped (16 * hex_value a + hex_value b) # uri_items rest
         else [Malformed])
      else Plain c # uri_items (a # b # rest))"
| "uri_items (c # cs) = (if c = CHR ''%'' then [Malformed] else Plain c # uri_items cs)"
| "uri_items [] = []"

definition continuation :: "nat \<Rightarrow> bool" where
  "continuation b = (128 \<le> b \<and> b \<le> 191)"

definition second_of_three :: "nat \<Rightarrow> nat \<Rightarrow> bool" where
  "second_of_three b b1 =
     (if b = 224 then 160 \<le> b1 \<and> b1 \<le> 191
      else if b = 237 then 128 \<le> b1 \<and> b1 \<le> 159
      else continuation b1)"

definition second_of_four :: "nat \<Rightarrow> nat \<Rightarrow> bool" where
  "second_of_four b b1 =
     (if b = 240 then 144 \<le> b1 \<and> b1 \<le> 191
      else if b = 244 then 128 \<le> b1 \<and> b1 \<le> 143
      else continuation b1)"

fun utf8_escapes :: "uri_item list \<Rightarrow> bool" where
  "utf8_escapes [] = True"
| "utf8_escapes (Plain c # xs) = utf8_escapes xs"
| "utf8_escapes (Malformed # xs) = False"
| "utf8_escapes (Escaped b # xs) =
     (if b < 128 then utf8_escapes xs
      else if 194 \<le> b \<and> b \<le> 223 then
        (case xs of
           Escaped b1 # ys \<Rightarrow> continuation b1 \<and> utf8_escapes ys
         | _ \<Rightarrow> False)
      else if 224 \<le> b \<and> b \<le> 239 then
        (case xs of
           Escaped b1 # Escaped b2 # ys \<Rightarrow>
             second_of_three b b1 \<and> continuation b2 \<and> utf8_escapes ys
         | _ \<Rightarrow> False)
      else if 240 \<le> b \<and> b \<le> 244 then
        (case xs of
           Escaped b1 # Escaped b2 # Escaped b3 # ys \<Rightarrow>
             second_of_four b b1 \<and> continuation b2 \<and> continuation b3 \<and> utf8_escapes ys
         | _ \<Rightarrow> False)
      else False)"

definition decodeURIComponent_throws :: "string \<Rightarrow> bool" where
  "decodeURIComponent_throws s = (\<not> utf8_escapes (uri_items s))"

text \<open>
  The framework's \<^verbatim>\<open>decode_param\<close>, applied by the last layer to the path: a
  \<^verbatim>\<open>URIError\<close> of \<^verbatim>\<open>decodeURIComponent\<close> is thrown on with the message below.
\<close>

definition decode_param_error :: layer_error where
  "decode_param_error req =
     (let val = pathname (originalUrl req)
      in if decodeURIComponent_throws val
         then Some (Error (''Failed to decode param '' @ [CHR 0x27] @ val @ [CHR 0x27]))
         else None)"

section \<open>Example inputs\<close>

text \<open>
  The configuration of the README's sample \<^verbatim>\<open>.env\<close> file, clock readings,
  transports (one that accepts every message, one that rejects every message, one
  that accepts a single recipient) and the requests at which the properties below
  are instantiated.
\<close>

definition env0 :: process_env where
  "env0 = [''EMAIL_FROM'' \<mapsto> ''noreply@yourcompany.com'',
           ''EMAIL_REPLY_TO'' \<mapsto> ''support@yourcompany.com'',
           ''COMPANY_NAME'' \<mapsto> ''Your Company Name'']"

definition now0 :: date where
  "now0 = \<lparr> getFullYear = 2025, toISOString = ''2025-08-07T10:30:00.000Z'' \<rparr>"

definition later0 :: date where
  "later0 = \<lparr> getFullYear = 2025, toISOString = ''2025-12-31T23:59:59.000Z'' \<rparr>"

definition stub_ok :: transport where
  "stub_ok m = Inr \<lparr> messageId = ''msg-1'' \<rparr>"

definition stub_fail :: transport where
  "stub_fail m = Inl (Error ''connect ECONNREFUSED 127.0.0.1:465'')"

definition stub_one_recipient :: transport where
  "stub_one_recipient m =
     (if strict_equals_string (mo_to m) ''user@example.com''
      then Inr \<lparr> messageId = ''msg-1'' \<rparr>
      else Inl (Error ''recipient rejected''))"

definition welcome_body :: js_object where
  "welcome_body =
     [''to'' \<mapsto> JString ''user@example.com'',
      ''username'' \<mapsto> JString ''John Doe'',
      ''verificationLink'' \<mapsto> JString ''https://app/verify?token=abc123'']"

definition full_body :: js_object where
  "full_body =
     [''to'' \<mapsto> JString ''user@example.com'',
      ''username'' \<mapsto> JString ''John Doe'',
      ''subject'' \<mapsto> JString ''Hello'',
      ''template'' \<mapsto> JString ''welcome'',
      ''context'' \<mapsto> JObject [''username'' \<mapsto> JString ''John Doe'']]"

definition empty_link_body :: js_object where
  "empty_link_body =
     [''to'' \<mapsto> JString ''user@example.com'',
      ''username'' \<mapsto> JString ''John Doe'',
      ''verificationLink'' \<mapsto> JString []]"

definition only_to_body :: js_object where
  "only_to_body = [''to'' \<mapsto> JString ''a@b.com'']"

definition evil_body :: js_object where
  "evil_body =
     [''to'' \<mapsto> JString ''a@b.com'',
      ''subject'' \<mapsto> JString ''Hi'',
      ''template'' \<mapsto> JString ''welcome'',
      ''context'' \<mapsto> JObject [''company_name'' \<mapsto> JString ''Evil Corp'',
                                 ''current_year'' \<mapsto> JNum 1999]]"

definition nope_request :: request where
  "nope_request =
     \<lparr> http_method = ''GET'', originalUrl = ''/nope'', parsed_body = Inr Map.empty \<rparr>"

definition undecodable_request :: request where
  "undecodable_request =
     \<lparr> http_method = ''GET'', originalUrl = ''/%'', parsed_body = Inr Map.empty \<rparr>"

definition bad_json_request :: request where
  "bad_json_request =
     \<lparr> http_method = ''GET'', originalUrl = ''/nope'',
       parsed_body = Inl (Error ''Unexpected end of JSON input'') \<rparr>"

section \<open>Properties\<close>

lemmas example_defs =
  env0_def now0_def later0_def stub_ok_def stub_fail_def stub_one_recipient_def
  welcome_body_def empty_link_body_def only_to_body_def evil_body_def
  full_body_def nope_request_def undecodable_request_def bad_json_request_def

subsection \<open>Helper facts about the handlers\<close>

lemma js_not_absent_or_empty:
  "obj k \<in> {None, Some (JString [])} \<Longrightarrow> js_not (get_prop obj k)"
  by (auto simp: get_prop_def js_not_def)

lemma send_welcome_email_invalid:
  assumes "js_not (get_prop body ''to'') \<or> js_not (get_prop body ''username'')"
  shows "status (res (send_welcome_email env now sendMail body)) = 400"
    and "json (res (send_welcome_email env now sendMail body)) ''error''
           = Some (JString ''Missing required fields'')"
    and "sendMail_calls (send_welcome_email env now sendMail body) = []"
    and "res (send_welcome_email env now sendMail body)
           = res (send_welcome_email env' now' sendMail' body)"
  using assms by (simp_all add: send_welcome_email_def Let_def)

lemma send_email_invalid:
  assumes "js_not (get_prop body ''to'') \<or> js_not (get_prop body ''subject'')
             \<or> js_not (get_prop body ''template'')"
  shows "status (res (send_email env now sendMail body)) = 400"
    and "json (res (send_email env now sendMail body)) ''error''
           = Some (JString ''Missing required fields'')"
    and "sendMail_calls (send_email env now sendMail body) = []"
    and "res (send_email env now sendMail body) = res (send_email env' now' sendMail' body)"
  using assms by (simp_all add: send_email_def Let_def)

lemma send_welcome_email_valid:
  assumes "truthy (get_prop body ''to'')" and "truthy (get_prop body ''username'')"
  shows "sendMail_calls (send_welcome_email env now sendMail body)
           = [welcome_mailOptions env now (get_prop body ''to'') (get_prop body ''username'')
                (get_prop body ''verificationLink'')]"
  using assms by (simp add: send_welcome_email_def Let_def js_not_def split: sum.splits)

lemma send_email_valid:
  assumes "truthy (get_prop body ''to'')" and "truthy (get_prop body ''subject'')"
    and "truthy (get_prop body ''template'')"
  shows "sendMail_calls (send_email env now sendMail body)
           = [custom_mailOptions env now (get_prop body ''to'') (get_prop body ''subject'')
                (get_prop body ''template'') (get_prop body ''context'')]"
  using assms by (simp add: send_email_def Let_def js_not_def split: sum.splits)

lemma sendMail_calls_welcome:
  "m \<in> set (sendMail_calls (send_welcome_email env now sendMail body)) \<Longrightarrow>
     m = welcome_mailOptions env now (get_prop body ''to'') (get_prop body ''username'')
           (get_prop body ''verificationLink'')"
  by (simp add: send_welcome_email_def Let_def split: if_splits sum.splits)

lemma sendMail_calls_custom:
  "m \<in> set (sendMail_calls (send_email env now sendMail body)) \<Longrightarrow>
     m = custom_mailOptions env now (get_prop body ''to'') (get_prop body ''subject'')
           (get_prop body ''template'') (get_prop body ''context'')"
  by (simp add: send_email_def Let_def split: if_splits sum.splits)

lemma welcome_mailOptions_year:
  "getFullYear now1 = getFullYear now2 \<Longrightarrow>
     welcome_mailOptions env now1 t u v = welcome_mailOptions env now2 t u v"
  by (simp add: welcome_mailOptions_def)

lemma custom_mailOptions_year:
  "getFullYear now1 = getFullYear now2 \<Longrightarrow>
     custom_mailOptions env now1 t s tp c = custom_mailOptions env now2 t s tp c"
  by (simp add: custom_mailOptions_def)

lemma send_welcome_email_year:
  "getFullYear now1 = getFullYear now2 \<Longrightarrow>
     send_welcome_email env now1 sendMail body = send_welcome_email env now2 sendMail body"
  by (simp add: send_welcome_email_def Let_def welcome_mailOptions_year [of now1 now2])

lemma send_email_year:
  "getFullYear now1 = getFullYear now2 \<Longrightarrow>
     send_email env now1 sendMail body = send_email env now2 sendMail body"
  by (simp add: send_email_def Let_def custom_mailOptions_year [of now1 now2])

lemma send_welcome_email_res_cong:
  assumes "sendMail1 (welcome_mailOptions env now (get_prop body ''to'')
             (get_prop body ''username'') (get_prop body ''verificationLink''))
           = sendMail2 (welcome_mailOptions env now (get_prop body ''to'')
             (get_prop body ''username'') (get_prop body ''verificationLink''))"
  shows "res (send_welcome_email env now sendMail1 body)
           = res (send_welcome_email env now sendMail2 body)"
  using assms by (simp add: send_welcome_email_def Let_def)

lemma send_email_res_cong:
  assumes "sendMail1 (custom_mailOptions env now (get_prop body ''to'')
             (get_prop body ''subject'') (get_prop body ''template'') (get_prop body ''context''))
           = sendMail2 (custom_mailOptions env now (get_prop body ''to'')
             (get_prop body ''subject'') (get_prop body ''template'') (get_prop body ''context''))"
  shows "res (send_email env now sendMail1 body) = res (send_email env now sendMail2 body)"
  using assms by (simp add: send_email_def Let_def)

lemma app_parse_error:
  "parsed_body req = Inl error \<Longrightarrow>
     app matches star_error env now sendMail req =
       Responded \<lparr> res = error_middleware error, sendMail_calls = [] \<rparr>"
  by (simp add: app_def)

lemma app_undecodable_path:
  assumes "parsed_body req = Inr body"
    and "\<not> matches ''GET'' ''/health'' req"
    and "\<not> matches ''POST'' ''/send-welcome-email'' req"
    and "\<not> matches ''POST'' ''/send-email'' req"
    and "star_error req = Some error"
  shows "app matches star_error env now sendMail req = Final_handler error"
  using assms by (simp add: app_def)

lemma to_lower_path_chars:
  "map to_lower ''/nope'' = ''/nope''" "map to_lower ''/%'' = ''/%''"
  "map to_lower ''/health'' = ''/health''"
  "map to_lower ''/send-welcome-email'' = ''/send-welcome-email''"
  "map to_lower ''/send-email'' = ''/send-email''"
  by (simp_all add: to_lower_def)

lemma nope_request_routes:
  "\<not> express_route m ''/health'' nope_request"
  "\<not> express_route m ''/send-welcome-email'' nope_request"
  "\<not> express_route m ''/send-email'' nope_request"
  by (simp_all add: express_route_def Let_def pathname_def nope_request_def
      to_lower_path_chars)

lemma bad_json_request_routes:
  "\<not> express_route m ''/health'' bad_json_request"
  "\<not> express_route m ''/send-welcome-email'' bad_json_request"
  "\<not> express_route m ''/send-email'' bad_json_request"
  by (simp_all add: express_route_def Let_def pathname_def bad_json_request_def
      to_lower_path_chars)

lemma undecodable_request_routes:
  "\<not> express_route m ''/health'' undecodable_request"
  "\<not> express_route m ''/send-welcome-email'' undecodable_request"
  "\<not> express_route m ''/send-email'' undecodable_request"
  by (simp_all add: express_route_def Let_def pathname_def undecodable_request_def
      to_lower_path_chars)

subsection \<open>C1: injected context entries\<close>

text \<open>
  C1. Every valid request is handed to the transport, and every message that
  either endpoint hands to the transport has a context in
  which \<^verbatim>\<open>company_name\<close> holds the configured company name (the value of
  \<^verbatim>\<open>COMPANY_NAME\<close> in the environment) and \<^verbatim>\<open>current_year\<close> holds the year of
  the clock reading, whatever the caller supplied: in the custom endpoint the two
  entries are written after the caller's context has been spread, so they replace
  entries of the same name. At the second theorem's input the caller's context
  names the company \<^verbatim>\<open>Evil Corp\<close> and the year 1999.
\<close>

theorem injected_context_overrides_caller:
  "(\<forall>m \<in> set (sendMail_calls (send_welcome_email env now sendMail body)
                @ sendMail_calls (send_email env now sendMail body')).
      mo_context m ''company_name'' = Some (env_get env ''COMPANY_NAME'')
      \<and> mo_context m ''current_year'' = Some (JNum (getFullYear now)))
   \<and> (truthy (get_prop body ''to'') \<and> truthy (get_prop body ''username'') \<longrightarrow>
        sendMail_calls (send_welcome_email env now sendMail body) \<noteq> [])
   \<and> (truthy (get_prop body' ''to'') \<and> truthy (get_prop body' ''subject'')
        \<and> truthy (get_prop body' ''template'') \<longrightarrow>
        sendMail_calls (send_email env now sendMail body') \<noteq> [])"
proof (intro conjI ballI impI)
  fix m
  assume "m \<in> set (sendMail_calls (send_welcome_email env now sendMail body)
               @ sendMail_calls (send_email env now sendMail body'))"
  then consider
      "m = welcome_mailOptions env now (get_prop body ''to'') (get_prop body ''username'')
             (get_prop body ''verificationLink'')"
    | "m = custom_mailOptions env now (get_prop body' ''to'') (get_prop body' ''subject'')
             (get_prop body' ''template'') (get_prop body' ''context'')"
    using sendMail_calls_welcome sendMail_calls_custom by fastforce
  then have "mo_context m ''company_name'' = Some (env_get env ''COMPANY_NAME'')
     \<and> mo_context m ''current_year'' = Some (JNum (getFullYear now))"
  proof cases
    case 1
    then show ?thesis by (simp add: welcome_mailOptions_def)
  next
    case 2
    then show ?thesis by (simp add: custom_mailOptions_def)
  qed
  then show "mo_context m ''company_name'' = Some (env_get env ''COMPANY_NAME'')"
    and "mo_context m ''current_year'' = Some (JNum (getFullYear now))"
    by simp_all
next
  assume "truthy (get_prop body ''to'') \<and> truthy (get_prop body ''username'')"
  then show "sendMail_calls (send_welcome_email env now sendMail body) \<noteq> []"
    by (simp add: send_welcome_email_valid)
next
  assume "truthy (get_prop body' ''to'') \<and> truthy (get_prop body' ''subject'')
        \<and> truthy (get_prop body' ''template'')"
  then show "sendMail_calls (send_email env now sendMail body') \<noteq> []"
    by (simp add: send_email_valid)
qed

theorem injected_context_overrides_caller_witness:
  "own_enumerable (get_prop evil_body ''context'') ''company_name'' = Some (JString ''Evil Corp'')
   \<and> map (\<lambda>m. mo_context m ''company_name'')
        (sendMail_calls (send_email env0 now0 stub_ok evil_body))
       = [Some (JString ''Your Company Name'')]
   \<and> map (\<lambda>m. mo_context m ''current_year'')
        (sendMail_calls (send_email env0 now0 stub_ok evil_body))
       = [Some (JNum 2025)]
   \<and> map (\<lambda>m. mo_context m ''company_name'')
        (sendMail_calls (send_welcome_email env0 now0 stub_ok welcome_body))
       = [Some (JString ''Your Company Name'')]"
  using injected_context_overrides_caller [of env0 now0 stub_ok welcome_body evil_body]
  by (simp add: send_email_valid send_welcome_email_valid example_defs get_prop_def env_get_def)

subsection \<open>C2: validation comes first\<close>

text \<open>
  C2. A welcome request in which \<^verbatim>\<open>to\<close> or \<^verbatim>\<open>username\<close> is absent or the empty
  string, and a custom request in which \<^verbatim>\<open>to\<close>, \<^verbatim>\<open>subject\<close> or \<^verbatim>\<open>template\<close>
  is absent or the empty string, is answered with status 400 and the error
  \<^verbatim>\<open>Missing required fields\<close>, and no message reaches \<^verbatim>\<open>sendMail\<close>.
\<close>

theorem missing_fields_rejected:
  "(body ''to'' \<in> {None, Some (JString [])} \<or> body ''username'' \<in> {None, Some (JString [])} \<longrightarrow>
      status (res (send_welcome_email env now sendMail body)) = 400
      \<and> json (res (send_welcome_email env now sendMail body)) ''error''
          = Some (JString ''Missing required fields'')
      \<and> sendMail_calls (send_welcome_email env now sendMail body) = [])
   \<and> (body ''to'' \<in> {None, Some (JString [])} \<or> body ''subject'' \<in> {None, Some (JString [])}
        \<or> body ''template'' \<in> {None, Some (JString [])} \<longrightarrow>
      status (res (send_email env now sendMail body)) = 400
      \<and> json (res (send_email env now sendMail body)) ''error''
          = Some (JString ''Missing required fields'')
      \<and> sendMail_calls (send_email env now sendMail body) = [])"
proof (intro conjI impI)
  assume "body ''to'' \<in> {None, Some (JString [])} \<or> body ''username'' \<in> {None, Some (JString [])}"
  then have v: "js_not (get_prop body ''to'') \<or> js_not (get_prop body ''username'')"
    using js_not_absent_or_empty by blast
  show "status (res (send_welcome_email env now sendMail body)) = 400"
    using v by (rule send_welcome_email_invalid)
  show "json (res (send_welcome_email env now sendMail body)) ''error''
          = Some (JString ''Missing required fields'')"
    using v by (rule send_welcome_email_invalid)
  show "sendMail_calls (send_welcome_email env now sendMail body) = []"
    using v by (rule send_welcome_email_invalid)
next
  assume "body ''to'' \<in> {None, Some (JString [])} \<or> body ''subject'' \<in> {None, Some (JString [])}
        \<or> body ''template'' \<in> {None, Some (JString [])}"
  then have v: "js_not (get_prop body ''to'') \<or> js_not (get_prop body ''subject'')
     \<or> js_not (get_prop body ''template'')"
    using js_not_absent_or_empty by blast
  show "status (res (send_email env now sendMail body)) = 400"
    using v by (rule send_email_invalid)
  show "json (res (send_email env now sendMail body)) ''error''
          = Some (JString ''Missing required fields'')"
    using v by (rule send_email_invalid)
  show "sendMail_calls (send_email env now sendMail body) = []"
    using v by (rule send_email_invalid)
qed

theorem missing_fields_rejected_witness:
  "only_to_body ''subject'' = None
   \<and> status (res (send_email env0 now0 stub_ok only_to_body)) = 400
   \<and> json (res (send_email env0 now0 stub_ok only_to_body)) ''error''
       = Some (JString ''Missing required fields'')
   \<and> sendMail_calls (send_email env0 now0 stub_ok only_to_body) = []
   \<and> only_to_body ''username'' = None
   \<and> status (res (send_welcome_email env0 now0 stub_ok only_to_body)) = 400
   \<and> sendMail_calls (send_welcome_email env0 now0 stub_ok only_to_body) = []"
proof -
  have h: "only_to_body ''subject'' = None" "only_to_body ''username'' = None"
    by (simp_all add: only_to_body_def)
  show ?thesis
    using h missing_fields_rejected [of only_to_body env0 now0 stub_ok] by simp
qed

subsection \<open>C3: the success response\<close>

text \<open>
  C3. When a request passes validation and the transport resolves with message
  identifier \<open>messageId info\<close> for the message built from it, the response has
  status 200 and the body \<^verbatim>\<open>{success: true, message, messageId, recipient}\<close> with
  the endpoint's fixed success text, that identifier, and the request's
  \<^verbatim>\<open>to\<close> value as recipient.
\<close>

theorem success_response:
  "(truthy (get_prop body ''to'') \<and> truthy (get_prop body ''username'')
      \<and> sendMail (welcome_mailOptions env now (get_prop body ''to'') (get_prop body ''username'')
            (get_prop body ''verificationLink'')) = Inr info \<longrightarrow>
      res (send_welcome_email env now sendMail body) =
        \<lparr> status = 200,
          json = [''success'' \<mapsto> JBool True,
                  ''message'' \<mapsto> JString ''Welcome email sent successfully'',
                  ''messageId'' \<mapsto> JString (messageId info),
                  ''recipient'' \<mapsto> get_prop body ''to''] \<rparr>)
   \<and> (truthy (get_prop body ''to'') \<and> truthy (get_prop body ''subject'')
      \<and> truthy (get_prop body ''template'')
      \<and> sendMail (custom_mailOptions env now (get_prop body ''to'') (get_prop body ''subject'')
            (get_prop body ''template'') (get_prop body ''context'')) = Inr info \<longrightarrow>
      res (send_email env now sendMail body) =
        \<lparr> status = 200,
          json = [''success'' \<mapsto> JBool True,
                  ''message'' \<mapsto> JString ''Email sent successfully'',
                  ''messageId'' \<mapsto> JString (messageId info),
                  ''recipient'' \<mapsto> get_prop body ''to''] \<rparr>)"
  by (simp add: send_welcome_email_def send_email_def Let_def js_not_def)

theorem success_response_witness:
  "res (send_welcome_email env0 now0 stub_ok welcome_body) =
     \<lparr> status = 200,
       json = [''success'' \<mapsto> JBool True,
               ''message'' \<mapsto> JString ''Welcome email sent successfully'',
               ''messageId'' \<mapsto> JString ''msg-1'',
               ''recipient'' \<mapsto> JString ''user@example.com''] \<rparr>
   \<and> res (send_email env0 now0 stub_ok evil_body) =
     \<lparr> status = 200,
       json = [''success'' \<mapsto> JBool True,
               ''message'' \<mapsto> JString ''Email sent successfully'',
               ''messageId'' \<mapsto> JString ''msg-1'',
               ''recipient'' \<mapsto> JString ''a@b.com''] \<rparr>"
  using success_response [of welcome_body stub_ok env0 now0 "\<lparr> messageId = ''msg-1'' \<rparr>"]
    success_response [of evil_body stub_ok env0 now0 "\<lparr> messageId = ''msg-1'' \<rparr>"]
  by (simp add: welcome_body_def evil_body_def stub_ok_def get_prop_def)

subsection \<open>C4: the failure response\<close>

text \<open>
  C4. When a request passes validation and the transport (template resolution and
  rendering included) rejects the message with an error whose message text is
  \<open>d\<close>, the handler itself answers with status 500 and the body
  \<^verbatim>\<open>{error: 'Email sending failed', message: d}\<close>, and the transport has been
  called exactly once: nothing is retried.
\<close>

theorem failure_response:
  "(truthy (get_prop body ''to'') \<and> truthy (get_prop body ''username'')
      \<and> sendMail (welcome_mailOptions env now (get_prop body ''to'') (get_prop body ''username'')
            (get_prop body ''verificationLink'')) = Inl (Error d) \<longrightarrow>
      send_welcome_email env now sendMail body =
        \<lparr> res = \<lparr> status = 500,
                  json = [''error'' \<mapsto> JString ''Email sending failed'',
                          ''message'' \<mapsto> JString d] \<rparr>,
          sendMail_calls = [welcome_mailOptions env now (get_prop body ''to'')
            (get_prop body ''username'') (get_prop body ''verificationLink'')] \<rparr>)
   \<and> (truthy (get_prop body ''to'') \<and> truthy (get_prop body ''subject'')
      \<and> truthy (get_prop body ''template'')
      \<and> sendMail (custom_mailOptions env now (get_prop body ''to'') (get_prop body ''subject'')
            (get_prop body ''template'') (get_prop body ''context'')) = Inl (Error d) \<longrightarrow>
      send_email env now sendMail body =
        \<lparr> res = \<lparr> status = 500,
                  json = [''error'' \<mapsto> JString ''Email sending failed'',
                          ''message'' \<mapsto> JString d] \<rparr>,
          sendMail_calls = [custom_mailOptions env now (get_prop body ''to'')
            (get_prop body ''subject'') (get_prop body ''template'') (get_prop body ''context'')] \<rparr>)"
  by (simp add: send_welcome_email_def send_email_def Let_def js_not_def)

theorem failure_response_witness:
  "res (send_welcome_email env0 now0 stub_fail welcome_body) =
     \<lparr> status = 500,
       json = [''error'' \<mapsto> JString ''Email sending failed'',
               ''message'' \<mapsto> JString ''connect ECONNREFUSED 127.0.0.1:465''] \<rparr>
   \<and> length (sendMail_calls (send_welcome_email env0 now0 stub_fail welcome_body)) = 1
   \<and> res (send_email env0 now0 stub_fail evil_body) =
     \<lparr> status = 500,
       json = [''error'' \<mapsto> JString ''Email sending failed'',
               ''message'' \<mapsto> JString ''connect ECONNREFUSED 127.0.0.1:465''] \<rparr>
   \<and> length (sendMail_calls (send_email env0 now0 stub_fail evil_body)) = 1"
  using failure_response [of welcome_body stub_fail env0 now0 "''connect ECONNREFUSED 127.0.0.1:465''"]
    failure_response [of evil_body stub_fail env0 now0 "''connect ECONNREFUSED 127.0.0.1:465''"]
  by (simp add: welcome_body_def evil_body_def stub_fail_def get_prop_def)

subsection \<open>C5: the welcome message\<close>

text \<open>
  C5, as amended. For a valid welcome request the one message handed to the
  transport takes \<^verbatim>\<open>from\<close> and \<^verbatim>\<open>replyTo\<close> from the environment, \<^verbatim>\<open>to\<close> from
  the request, has the subject \<^verbatim>\<open>Welcome to Our Platform!\<close> and the template name
  \<^verbatim>\<open>welcome\<close>, and its context has exactly the four keys \<^verbatim>\<open>username\<close> (the
  request's value), \<^verbatim>\<open>verification_link\<close>, \<^verbatim>\<open>company_name\<close> and
  \<^verbatim>\<open>current_year\<close>, where \<^verbatim>\<open>verification_link\<close> is the request's
  \<^verbatim>\<open>verificationLink\<close> when that is present and truthy and the placeholder
  \<^verbatim>\<open>#\<close> when it is absent or falsy. With the placeholder promised for an absent
  link only, the statement fails: a link that is present but empty is replaced by
  the placeholder as well, as the last theorem shows.
\<close>

theorem welcome_message_shape:
  "truthy (get_prop body ''to'') \<and> truthy (get_prop body ''username'') \<longrightarrow>
     (\<exists>m. sendMail_calls (send_welcome_email env now sendMail body) = [m]
        \<and> mo_from m = env_get env ''EMAIL_FROM''
        \<and> mo_replyTo m = env_get env ''EMAIL_REPLY_TO''
        \<and> mo_to m = get_prop body ''to''
        \<and> mo_subject m = JString ''Welcome to Our Platform!''
        \<and> mo_template m = JString ''welcome''
        \<and> dom (mo_context m) =
            {''username'', ''verification_link'', ''company_name'', ''current_year''}
        \<and> mo_context m ''username'' = body ''username''
        \<and> mo_context m ''verification_link'' =
            Some (case body ''verificationLink'' of
                    None \<Rightarrow> JString ''#''
                  | Some v \<Rightarrow> if truthy v then v else JString ''#'')
        \<and> mo_context m ''company_name'' = Some (env_get env ''COMPANY_NAME'')
        \<and> mo_context m ''current_year'' = Some (JNum (getFullYear now)))"
proof
  assume valid: "truthy (get_prop body ''to'') \<and> truthy (get_prop body ''username'')"
  let ?m = "welcome_mailOptions env now (get_prop body ''to'') (get_prop body ''username'')
              (get_prop body ''verificationLink'')"
  have calls: "sendMail_calls (send_welcome_email env now sendMail body) = [?m]"
    using valid by (simp add: send_welcome_email_valid)
  have user: "mo_context ?m ''username'' = body ''username''"
    using valid by (cases "body ''username''") (simp_all add: welcome_mailOptions_def get_prop_def)
  have link: "mo_context ?m ''verification_link'' =
            Some (case body ''verificationLink'' of
                    None \<Rightarrow> JString ''#''
                  | Some v \<Rightarrow> if truthy v then v else JString ''#'')"
    by (cases "body ''verificationLink''")
      (simp_all add: welcome_mailOptions_def get_prop_def js_or_def)
  have keys: "dom (mo_context ?m) =
            {''username'', ''verification_link'', ''company_name'', ''current_year''}"
    by (auto simp: welcome_mailOptions_def)
  have rest: "mo_from ?m = env_get env ''EMAIL_FROM''"
    "mo_replyTo ?m = env_get env ''EMAIL_REPLY_TO''"
    "mo_to ?m = get_prop body ''to''"
    "mo_subject ?m = JString ''Welcome to Our Platform!''"
    "mo_template ?m = JString ''welcome''"
    "mo_context ?m ''company_name'' = Some (env_get env ''COMPANY_NAME'')"
    "mo_context ?m ''current_year'' = Some (JNum (getFullYear now))"
    by (simp_all add: welcome_mailOptions_def)
  from calls user link keys rest
  show "\<exists>m. sendMail_calls (send_welcome_email env now sendMail body) = [m]
        \<and> mo_from m = env_get env ''EMAIL_FROM''
        \<and> mo_replyTo m = env_get env ''EMAIL_REPLY_TO''
        \<and> mo_to m = get_prop body ''to''
        \<and> mo_subject m = JString ''Welcome to Our Platform!''
        \<and> mo_template m = JString ''welcome''
        \<and> dom (mo_context m) =
            {''username'', ''verification_link'', ''company_name'', ''current_year''}
        \<and> mo_context m ''username'' = body ''username''
        \<and> mo_context m ''verification_link'' =
            Some (case body ''verificationLink'' of
                    None \<Rightarrow> JString ''#''
                  | Some v \<Rightarrow> if truthy v then v else JString ''#'')
        \<and> mo_context m ''company_name'' = Some (env_get env ''COMPANY_NAME'')
        \<and> mo_context m ''current_year'' = Some (JNum (getFullYear now))"
    by blast
qed

theorem welcome_message_shape_witness:
  "map mo_from (sendMail_calls (send_welcome_email env0 now0 stub_ok welcome_body))
     = [JString ''noreply@yourcompany.com'']
   \<and> map mo_to (sendMail_calls (send_welcome_email env0 now0 stub_ok welcome_body))
     = [JString ''user@example.com'']
   \<and> map (\<lambda>m. mo_context m ''verification_link'')
        (sendMail_calls (send_welcome_email env0 now0 stub_ok welcome_body))
     = [Some (JString ''https://app/verify?token=abc123'')]
   \<and> map (\<lambda>m. mo_context m ''verification_link'')
        (sendMail_calls (send_welcome_email env0 now0 stub_ok
           (welcome_body(''verificationLink'' := None))))
     = [Some (JString ''#'')]"
  using welcome_message_shape [of welcome_body env0 now0 stub_ok]
    welcome_message_shape [of "welcome_body(''verificationLink'' := None)" env0 now0 stub_ok]
  by (simp add: send_welcome_email_valid welcome_mailOptions_def example_defs get_prop_def
      env_get_def js_or_def)

theorem welcome_message_shape_counterexample:
  "empty_link_body ''verificationLink'' = Some (JString [])
   \<and> map (\<lambda>m. mo_context m ''verification_link'')
        (sendMail_calls (send_welcome_email env0 now0 stub_ok empty_link_body))
     \<noteq> [Some (JString [])]
   \<and> map (\<lambda>m. mo_context m ''verification_link'')
        (sendMail_calls (send_welcome_email env0 now0 stub_ok empty_link_body))
     = [Some (JString ''#'')]"
  by (simp add: send_welcome_email_valid welcome_mailOptions_def empty_link_body_def
      get_prop_def js_or_def)

subsection \<open>C6: no default company name\<close>

text \<open>
  C6. The claim is that \<^verbatim>\<open>company_name\<close> falls back to a fixed default string
  when \<^verbatim>\<open>COMPANY_NAME\<close> is unset, as the README's configuration table documents
  (default \<^verbatim>\<open>Your Company\<close>). Both handlers read \<^verbatim>\<open>process.env.COMPANY_NAME\<close>
  with no fallback, unlike the host, the port and the listening port: with the
  variable unset, the context entry of either endpoint holds \<^verbatim>\<open>undefined\<close>.
\<close>

theorem company_name_unset_no_default:
  "map (\<lambda>m. mo_context m ''company_name'')
     (sendMail_calls (send_welcome_email Map.empty now0 stub_ok welcome_body)) = [Some JUndefined]
   \<and> map (\<lambda>m. mo_context m ''company_name'')
     (sendMail_calls (send_email Map.empty now0 stub_ok evil_body)) = [Some JUndefined]"
  by (simp add: send_email_valid send_welcome_email_valid welcome_mailOptions_def
      custom_mailOptions_def example_defs get_prop_def env_get_def)

subsection \<open>C7: the secure flag\<close>

text \<open>
  C7. The transport's \<^verbatim>\<open>secure\<close> option is true exactly when \<^verbatim>\<open>EMAIL_SECURE\<close>
  is the string \<^verbatim>\<open>true\<close>; it is false for every other value and when the variable
  is unset.
\<close>

theorem secure_iff_exact_true:
  "secure (transporter_options env) = (env ''EMAIL_SECURE'' = Some ''true'')"
  by (simp add: transporter_options_def env_get_def split: option.splits)

theorem secure_iff_exact_true_witness:
  "secure (transporter_options [''EMAIL_SECURE'' \<mapsto> ''true''])
   \<and> \<not> secure (transporter_options [''EMAIL_SECURE'' \<mapsto> ''TRUE''])
   \<and> \<not> secure (transporter_options [''EMAIL_SECURE'' \<mapsto> ''1''])
   \<and> \<not> secure (transporter_options [''EMAIL_SECURE'' \<mapsto> ''ture''])
   \<and> \<not> secure (transporter_options Map.empty)"
  using secure_iff_exact_true [of "[''EMAIL_SECURE'' \<mapsto> ''true'']"]
    secure_iff_exact_true [of "[''EMAIL_SECURE'' \<mapsto> ''TRUE'']"]
    secure_iff_exact_true [of "[''EMAIL_SECURE'' \<mapsto> ''1'']"]
    secure_iff_exact_true [of "[''EMAIL_SECURE'' \<mapsto> ''ture'']"]
    secure_iff_exact_true [of Map.empty]
  by simp

subsection \<open>C8: unmatched routes\<close>

text \<open>
  C8, as amended. A request whose body the JSON parser passed on without an error,
  which none of the three routes serves, and whose path the last layer can decode,
  is answered with status 404 and the body
  \<^verbatim>\<open>{error: 'Route not found', message: 'The route <originalUrl> does not exist'}\<close>,
  and nothing is sent. Without the two conditions the statement fails, as the last
  theorem shows at two requests that no route serves: \<^verbatim>\<open>GET /nope\<close> with a JSON
  body that does not parse is answered with status 500 by the error-handling
  middleware, and \<^verbatim>\<open>GET /%\<close> is answered by none of the program's handlers.
\<close>

theorem unmatched_route_not_found:
  assumes "parsed_body req = Inr body"
    and "\<not> matches ''GET'' ''/health'' req"
    and "\<not> matches ''POST'' ''/send-welcome-email'' req"
    and "\<not> matches ''POST'' ''/send-email'' req"
    and "star_error req = None"
  shows "app matches star_error env now sendMail req =
           Responded
             \<lparr> res = \<lparr> status = 404,
                       json = [''error'' \<mapsto> JString ''Route not found'',
                               ''message'' \<mapsto> JString (''The route '' @ originalUrl req
                                                          @ '' does not exist'')] \<rparr>,
               sendMail_calls = [] \<rparr>"
  using assms by (simp add: app_def not_found_def)

theorem unmatched_route_not_found_witness:
  "app express_route decode_param_error env0 now0 stub_ok nope_request =
     Responded
       \<lparr> res = \<lparr> status = 404,
                 json = [''error'' \<mapsto> JString ''Route not found'',
                         ''message'' \<mapsto> JString ''The route /nope does not exist''] \<rparr>,
         sendMail_calls = [] \<rparr>"
proof -
  have routes: "\<not> express_route ''GET'' ''/health'' nope_request"
    "\<not> express_route ''POST'' ''/send-welcome-email'' nope_request"
    "\<not> express_route ''POST'' ''/send-email'' nope_request"
    by (simp_all add: nope_request_routes)
  have decoded: "decode_param_error nope_request = None"
    by (simp add: decode_param_error_def decodeURIComponent_throws_def pathname_def
        nope_request_def)
  have parsed: "parsed_body nope_request = Inr Map.empty"
    and url: "originalUrl nope_request = ''/nope''"
    by (simp_all add: nope_request_def)
  have "app express_route decode_param_error env0 now0 stub_ok nope_request =
     Responded
       \<lparr> res = \<lparr> status = 404,
                 json = [''error'' \<mapsto> JString ''Route not found'',
                         ''message'' \<mapsto> JString (''The route '' @ originalUrl nope_request
                                                    @ '' does not exist'')] \<rparr>,
         sendMail_calls = [] \<rparr>"
    using parsed routes decoded by (rule unmatched_route_not_found)
  then show ?thesis by (simp add: url)
qed

theorem unmatched_route_counterexample:
  "\<not> express_route ''GET'' ''/health'' bad_json_request
   \<and> \<not> express_route ''POST'' ''/send-welcome-email'' bad_json_request
   \<and> \<not> express_route ''POST'' ''/send-email'' bad_json_request
   \<and> app express_route decode_param_error env0 now0 stub_ok bad_json_request =
       Responded
         \<lparr> res = \<lparr> status = 500,
                   json = [''error'' \<mapsto> JString ''Internal server error'',
                           ''message'' \<mapsto> JString ''Something went wrong on our end''] \<rparr>,
           sendMail_calls = [] \<rparr>
   \<and> \<not> express_route ''GET'' ''/health'' undecodable_request
   \<and> \<not> express_route ''POST'' ''/send-welcome-email'' undecodable_request
   \<and> \<not> express_route ''POST'' ''/send-email'' undecodable_request
   \<and> app express_route decode_param_error env0 now0 stub_ok undecodable_request =
       Final_handler (Error (''Failed to decode param '' @ [CHR 0x27] @ ''/%'' @ [CHR 0x27]))"
proof -
  have "parsed_body bad_json_request = Inl (Error ''Unexpected end of JSON input'')"
    by (simp add: bad_json_request_def)
  then have bad: "app express_route decode_param_error env0 now0 stub_ok bad_json_request =
      Responded \<lparr> res = error_middleware (Error ''Unexpected end of JSON input''),
                  sendMail_calls = [] \<rparr>"
    by (rule app_parse_error)
  have parsed: "parsed_body undecodable_request = Inr Map.empty"
    by (simp add: undecodable_request_def)
  have thrown: "decode_param_error undecodable_request =
      Some (Error (''Failed to decode param '' @ [CHR 0x27] @ ''/%'' @ [CHR 0x27]))"
    by (simp add: decode_param_error_def decodeURIComponent_throws_def pathname_def
        undecodable_request_def)
  have routes: "\<not> express_route ''GET'' ''/health'' undecodable_request"
    "\<not> express_route ''POST'' ''/send-welcome-email'' undecodable_request"
    "\<not> express_route ''POST'' ''/send-email'' undecodable_request"
    by (simp_all add: undecodable_request_routes)
  have undecodable: "app express_route decode_param_error env0 now0 stub_ok undecodable_request =
      Final_handler (Error (''Failed to decode param '' @ [CHR 0x27] @ ''/%'' @ [CHR 0x27]))"
    using parsed routes thrown by (rule app_undecodable_path)
  show ?thesis
    using bad undecodable
    by (simp add: bad_json_request_routes undecodable_request_routes error_middleware_def)
qed

subsection \<open>C9: a falsy verification link\<close>

text \<open>
  C9. For a valid welcome request whose \<^verbatim>\<open>verificationLink\<close> is present but falsy
  (the empty string, for one), the context's \<^verbatim>\<open>verification_link\<close> is \<^verbatim>\<open>#\<close>, and
  the handler's whole outcome is the one it has when the field is absent.
\<close>

theorem falsy_verification_link_placeholder:
  "truthy (get_prop body ''to'') \<and> truthy (get_prop body ''username'')
   \<and> body ''verificationLink'' = Some v \<and> \<not> truthy v \<longrightarrow>
     (\<exists>m. sendMail_calls (send_welcome_email env now sendMail body) = [m]
        \<and> mo_context m ''verification_link'' = Some (JString ''#''))
     \<and> send_welcome_email env now sendMail body
         = send_welcome_email env now sendMail (body(''verificationLink'' := None))"
proof (intro impI conjI)
  assume a: "truthy (get_prop body ''to'') \<and> truthy (get_prop body ''username'')
   \<and> body ''verificationLink'' = Some v \<and> \<not> truthy v"
  then have link: "js_or (get_prop body ''verificationLink'') (JString ''#'') = JString ''#''"
    by (simp add: get_prop_def js_or_def)
  from a show "\<exists>m. sendMail_calls (send_welcome_email env now sendMail body) = [m]
        \<and> mo_context m ''verification_link'' = Some (JString ''#'')"
    by (simp add: send_welcome_email_valid welcome_mailOptions_def link)
  have undef: "js_or JUndefined (JString ''#'') = JString ''#''"
    by (simp add: js_or_def)
  have same: "welcome_mailOptions env now t u (get_prop body ''verificationLink'')
      = welcome_mailOptions env now t u JUndefined" for t u
    by (simp add: welcome_mailOptions_def link undef)
  show "send_welcome_email env now sendMail body
         = send_welcome_email env now sendMail (body(''verificationLink'' := None))"
  proof -
    let ?body' = "body(''verificationLink'' := None)"
    have g: "get_prop ?body' ''to'' = get_prop body ''to''"
      "get_prop ?body' ''username'' = get_prop body ''username''"
      "get_prop ?body' ''verificationLink'' = JUndefined"
      by (simp_all add: get_prop_def)
    show ?thesis
      by (simp add: send_welcome_email_def Let_def g same)
  qed
qed

theorem falsy_verification_link_placeholder_witness:
  "empty_link_body ''verificationLink'' = Some (JString [])
   \<and> map (\<lambda>m. mo_context m ''verification_link'')
        (sendMail_calls (send_welcome_email env0 now0 stub_ok empty_link_body))
     = [Some (JString ''#'')]
   \<and> send_welcome_email env0 now0 stub_ok empty_link_body
     = send_welcome_email env0 now0 stub_ok (empty_link_body(''verificationLink'' := None))"
proof -
  have h: "truthy (get_prop empty_link_body ''to'')"
    "truthy (get_prop empty_link_body ''username'')"
    "empty_link_body ''verificationLink'' = Some (JString [])"
    by (simp_all add: empty_link_body_def get_prop_def)
  from falsy_verification_link_placeholder
    [of empty_link_body "JString []" env0 now0 stub_ok] h
  show ?thesis by auto
qed

subsection \<open>C10: determinism of the responses\<close>

text \<open>
  C10. With the environment fixed, two invocations of an endpoint on equal bodies,
  at clock readings of the same year and with transports that give the same reply
  to the message handed to them, produce the same response (status and body).
\<close>

theorem response_deterministic:
  assumes "body1 = body2" and "getFullYear now1 = getFullYear now2"
    and "\<forall>m \<in> set (sendMail_calls (send_welcome_email env now1 sendMail1 body1)).
           sendMail1 m = sendMail2 m"
    and "\<forall>m \<in> set (sendMail_calls (send_email env now1 sendMail1 body1)).
           sendMail1 m = sendMail2 m"
  shows "res (send_welcome_email env now1 sendMail1 body1)
           = res (send_welcome_email env now2 sendMail2 body2)
         \<and> res (send_email env now1 sendMail1 body1)
           = res (send_email env now2 sendMail2 body2)"
proof
  have "res (send_welcome_email env now1 sendMail1 body1)
          = res (send_welcome_email env now1 sendMail2 body1)"
  proof (cases "js_not (get_prop body1 ''to'') \<or> js_not (get_prop body1 ''username'')")
    case True
    then show ?thesis by (rule send_welcome_email_invalid)
  next
    case False
    with assms(3) show ?thesis
      by (intro send_welcome_email_res_cong) (simp add: send_welcome_email_valid js_not_def)
  qed
  then show "res (send_welcome_email env now1 sendMail1 body1)
           = res (send_welcome_email env now2 sendMail2 body2)"
    using assms(1,2) by (simp add: send_welcome_email_year [of now1 now2])
next
  have "res (send_email env now1 sendMail1 body1) = res (send_email env now1 sendMail2 body1)"
  proof (cases "js_not (get_prop body1 ''to'') \<or> js_not (get_prop body1 ''subject'')
      \<or> js_not (get_prop body1 ''template'')")
    case True
    then show ?thesis by (rule send_email_invalid)
  next
    case False
    with assms(4) show ?thesis
      by (intro send_email_res_cong) (simp add: send_email_valid js_not_def)
  qed
  then show "res (send_email env now1 sendMail1 body1)
           = res (send_email env now2 sendMail2 body2)"
    using assms(1,2) by (simp add: send_email_year [of now1 now2])
qed

theorem response_deterministic_witness:
  "getFullYear now0 = getFullYear later0
   \<and> res (send_welcome_email env0 now0 stub_ok full_body)
       = res (send_welcome_email env0 later0 stub_one_recipient full_body)
   \<and> status (res (send_welcome_email env0 now0 stub_ok full_body)) = 200
   \<and> res (send_email env0 now0 stub_ok full_body)
       = res (send_email env0 later0 stub_one_recipient full_body)
   \<and> status (res (send_email env0 now0 stub_ok full_body)) = 200"
proof -
  have y: "getFullYear now0 = getFullYear later0"
    by (simp add: now0_def later0_def)
  have v: "truthy (get_prop full_body ''to'')" "truthy (get_prop full_body ''username'')"
    "truthy (get_prop full_body ''subject'')" "truthy (get_prop full_body ''template'')"
    "get_prop full_body ''to'' = JString ''user@example.com''"
    by (simp_all add: full_body_def get_prop_def)
  have w: "\<forall>m \<in> set (sendMail_calls (send_welcome_email env0 now0 stub_ok full_body)).
             stub_ok m = stub_one_recipient m"
    by (simp add: send_welcome_email_valid v welcome_mailOptions_def stub_ok_def
        stub_one_recipient_def)
  have c: "\<forall>m \<in> set (sendMail_calls (send_email env0 now0 stub_ok full_body)).
             stub_ok m = stub_one_recipient m"
    by (simp add: send_email_valid v custom_mailOptions_def stub_ok_def
        stub_one_recipient_def)
  have ok: "status (res (send_welcome_email env0 now0 stub_ok full_body)) = 200"
    "status (res (send_email env0 now0 stub_ok full_body)) = 200"
    using v by (simp_all add: send_welcome_email_def send_email_def Let_def js_not_def
        stub_ok_def)
  from response_deterministic [OF refl y w c] y ok show ?thesis by simp
qed

end
